theory Spec2Isabelle
  imports
    Main
    "HOL-Library.Word"
    "HOL-Library.Char_ord"
    "HOL-Library.List_Lexorder"
    "HOL-Library.Multiset"
begin

unbundle bit_operations_syntax

section \<open>Twilio webhook signature validation (middleware/validateTwilio.js)\<close>

text \<open>
  The development embeds the class \<^verbatim>\<open>TwilioSignatureValidator\<close>: its constructor, the method
  \<^verbatim>\<open>validateSignature\<close> and the Express handler returned by \<^verbatim>\<open>middleware()\<close>.

  JavaScript strings are modelled as \<^typ>\<open>string\<close>: lists of code units restricted to the range
  0..255 (header values and request lines reach Node in Latin-1). Byte buffers are lists of
  8-bit words. The functions of the Node platform the class calls (\<^verbatim>\<open>crypto.createHmac\<close>,
  \<^verbatim>\<open>digest('base64')\<close>, \<^verbatim>\<open>Buffer.from(s, 'base64')\<close>, \<^verbatim>\<open>crypto.timingSafeEqual\<close>,
  \<^verbatim>\<open>Object.keys\<close>, \<^verbatim>\<open>Array.prototype.sort\<close>, \<^verbatim>\<open>some\<close>, \<^verbatim>\<open>reduce\<close>) are modelled by what they
  compute. Exceptions are values of a sum type, and the observable effects of a call
  (keyed digests computed, console output) are returned as a list of events.
\<close>

subsection \<open>Bytes and UTF-8\<close>

type_synonym byte = "8 word"
type_synonym u32 = "32 word"

text \<open>\<^verbatim>\<open>Buffer.from(s, 'utf-8')\<close> on code units below 256: one byte below 128, two bytes above.\<close>

definition utf8_char :: "char \<Rightarrow> byte list" where
  "utf8_char c =
     (let n = of_char c :: nat in
      if n < 128 then [of_nat n] else [of_nat (192 + n div 64), of_nat (128 + n mod 64)])"

definition utf8 :: "string \<Rightarrow> byte list" where
  "utf8 s = concat (map utf8_char s)"

subsection \<open>SHA-1 and HMAC (what \<^verbatim>\<open>crypto.createHmac('sha1', key)\<close> computes)\<close>

definition rotl :: "nat \<Rightarrow> u32 \<Rightarrow> u32" where
  "rotl n w = push_bit n w OR drop_bit (32 - n) w"

definition be_bytes :: "64 word \<Rightarrow> byte list" where
  "be_bytes v = map (\<lambda>i. ucast (drop_bit (8 * (7 - i)) v)) [0..<8]"

definition sha1_pad :: "byte list \<Rightarrow> byte list" where
  "sha1_pad m =
     m @ [0x80] @ replicate ((119 - length m mod 64) mod 64) 0 @ be_bytes (of_nat (8 * length m))"

fun be_words :: "byte list \<Rightarrow> u32 list" where
  "be_words (a # b # c # d # rest) =
     (push_bit 24 (ucast a) OR push_bit 16 (ucast b) OR push_bit 8 (ucast c) OR ucast d)
       # be_words rest"
| "be_words _ = []"

fun schedule :: "nat \<Rightarrow> u32 list \<Rightarrow> u32 list" where
  "schedule 0 w = w"
| "schedule (Suc n) w =
     schedule n (w @ [rotl 1 (w ! (length w - 3) XOR w ! (length w - 8)
                              XOR w ! (length w - 14) XOR w ! (length w - 16))])"

definition sha1_f :: "nat \<Rightarrow> u32 \<Rightarrow> u32 \<Rightarrow> u32 \<Rightarrow> u32" where
  "sha1_f t b c d =
     (if t < 20 then (b AND c) OR (NOT b AND d)
      else if t < 40 then b XOR c XOR d
      else if t < 60 then (b AND c) OR (b AND d) OR (c AND d)
      else b XOR c XOR d)"

definition sha1_k :: "nat \<Rightarrow> u32" where
  "sha1_k t =
     (if t < 20 then 0x5A827999 else if t < 40 then 0x6ED9EBA1
      else if t < 60 then 0x8F1BBCDC else 0xCA62C1D6)"

type_synonym sha1_state = "u32 \<times> u32 \<times> u32 \<times> u32 \<times> u32"

definition sha1_round :: "nat \<times> u32 \<Rightarrow> sha1_state \<Rightarrow> sha1_state" where
  "sha1_round tw s =
     (case tw of (t, w) \<Rightarrow> case s of (a, b, c, d, e) \<Rightarrow>
        (rotl 5 a + sha1_f t b c d + e + sha1_k t + w, a, rotl 30 b, c, d))"

definition sha1_rounds :: "u32 list \<Rightarrow> sha1_state \<Rightarrow> sha1_state" where
  "sha1_rounds ws s = fold sha1_round (enumerate 0 ws) s"

definition sha1_block :: "sha1_state \<Rightarrow> byte list \<Rightarrow> sha1_state" where
  "sha1_block h blk =
     (case h of (h0, h1, h2, h3, h4) \<Rightarrow>
        (case sha1_rounds (schedule 64 (be_words blk)) h of (a, b, c, d, e) \<Rightarrow>
           (h0 + a, h1 + b, h2 + c, h3 + d, h4 + e)))"

fun sha1_blocks :: "nat \<Rightarrow> sha1_state \<Rightarrow> byte list \<Rightarrow> sha1_state" where
  "sha1_blocks 0 h m = h"
| "sha1_blocks (Suc n) h m = sha1_blocks n (sha1_block h (take 64 m)) (drop 64 m)"

definition word_bytes :: "u32 \<Rightarrow> byte list" where
  "word_bytes w = [ucast (drop_bit 24 w), ucast (drop_bit 16 w), ucast (drop_bit 8 w), ucast w]"

definition sha1 :: "byte list \<Rightarrow> byte list" where
  "sha1 m =
     (let p = sha1_pad m in
      case sha1_blocks (length p div 64)
             (0x67452301, 0xEFCDAB89, 0x98BADCFE, 0x10325476, 0xC3D2E1F0) p
      of (h0, h1, h2, h3, h4) \<Rightarrow>
        word_bytes h0 @ word_bytes h1 @ word_bytes h2 @ word_bytes h3 @ word_bytes h4)"

text \<open>HMAC: a key longer than the 64-byte block is hashed first; the key is then padded
  with zero bytes to the block length.\<close>

definition hmac_sha1 :: "byte list \<Rightarrow> byte list \<Rightarrow> byte list" where
  "hmac_sha1 key msg =
     (let k = (if length key > 64 then sha1 key else key);
          k0 = k @ replicate (64 - length k) 0
      in sha1 (map (\<lambda>b. b XOR 0x5C) k0 @ sha1 (map (\<lambda>b. b XOR 0x36) k0 @ msg)))"

subsection \<open>Base64\<close>

text \<open>The standard alphabet: \<^verbatim>\<open>A\<close> to \<^verbatim>\<open>Z\<close>, \<^verbatim>\<open>a\<close> to \<^verbatim>\<open>z\<close>, \<^verbatim>\<open>0\<close> to \<^verbatim>\<open>9\<close>, \<^verbatim>\<open>+\<close> and \<^verbatim>\<open>/\<close>.\<close>

definition b64_char :: "nat \<Rightarrow> char" where
  "b64_char n =
     (if n < 26 then char_of (n + 65)
      else if n < 52 then char_of (n + 71)
      else if n < 62 then char_of (n - 4)
      else if n = 62 then CHR ''+'' else CHR ''/'')"

text \<open>\<^verbatim>\<open>digest('base64')\<close>: standard alphabet, padded with \<^verbatim>\<open>=\<close>.\<close>

fun base64_encode :: "byte list \<Rightarrow> string" where
  "base64_encode [] = []"
| "base64_encode [a] =
     [b64_char (unat a div 4), b64_char (unat a mod 4 * 16), CHR ''='', CHR ''='']"
| "base64_encode [a, b] =
     [b64_char (unat a div 4), b64_char (unat a mod 4 * 16 + unat b div 16),
      b64_char (unat b mod 16 * 4), CHR ''='']"
| "base64_encode (a # b # c # rest) =
     [b64_char (unat a div 4), b64_char (unat a mod 4 * 16 + unat b div 16),
      b64_char (unat b mod 16 * 4 + unat c div 64), b64_char (unat c mod 64)]
       @ base64_encode rest"

text \<open>
  \<^verbatim>\<open>Buffer.from(s, 'base64')\<close> never throws. Node's decoder maps each character through a
  table that accepts the standard and the URL-safe alphabet, skips every character outside
  both, stops at the first \<^verbatim>\<open>=\<close>, and emits the bytes that are complete: a final group of
  two characters gives one byte, of three characters two bytes, and a single left-over
  character none; the unused low bits of the last character are dropped.
\<close>

definition unbase64 :: "char \<Rightarrow> nat option" where
  "unbase64 c =
     (let n = of_char c :: nat in
      if 65 \<le> n \<and> n \<le> 90 then Some (n - 65)
      else if 97 \<le> n \<and> n \<le> 122 then Some (n - 71)
      else if 48 \<le> n \<and> n \<le> 57 then Some (n + 4)
      else if n = 43 \<or> n = 45 then Some 62
      else if n = 47 \<or> n = 95 then Some 63
      else None)"

fun decode_sextets :: "nat list \<Rightarrow> byte list" where
  "decode_sextets (a # b # c # d # rest) =
     [of_nat (a * 4 + b div 16), of_nat (b mod 16 * 16 + c div 4), of_nat (c mod 4 * 64 + d)]
       @ decode_sextets rest"
| "decode_sextets [a, b, c] = [of_nat (a * 4 + b div 16), of_nat (b mod 16 * 16 + c div 4)]"
| "decode_sextets [a, b] = [of_nat (a * 4 + b div 16)]"
| "decode_sextets _ = []"

text \<open>The 6-bit groups of a byte string, the last one padded with zero bits.\<close>

fun sextets :: "byte list \<Rightarrow> nat list" where
  "sextets [] = []"
| "sextets [a] = [unat a div 4, unat a mod 4 * 16]"
| "sextets [a, b] = [unat a div 4, unat a mod 4 * 16 + unat b div 16, unat b mod 16 * 4]"
| "sextets (a # b # c # rest) =
     [unat a div 4, unat a mod 4 * 16 + unat b div 16,
      unat b mod 16 * 4 + unat c div 64, unat c mod 64] @ sextets rest"

definition Buffer_from_base64 :: "string \<Rightarrow> byte list" where
  "Buffer_from_base64 s =
     decode_sextets (List.map_filter unbase64 (takeWhile (\<lambda>c. c \<noteq> CHR ''='') s))"

subsection \<open>Exceptions and observable effects\<close>

datatype js_error = TypeError string | RangeError string | Error string

fun message :: "js_error \<Rightarrow> string" where
  "message (TypeError m) = m"
| "message (RangeError m) = m"
| "message (Error m) = m"

text \<open>
  An event records one observable action: a keyed digest computed with a token over a
  message, or a console call with its message and the logged fields (the \<^verbatim>\<open>timestamp\<close>
  field, read from the clock, is left out).
\<close>

datatype event =
    HmacSha1 string string
  | ConsoleError string string
  | ConsoleWarn string "(string \<times> string) list"
  | ConsoleLog string "(string \<times> string) list"

fun is_hmac :: "event \<Rightarrow> bool" where
  "is_hmac (HmacSha1 k m) = True"
| "is_hmac _ = False"

definition hmac_count :: "event list \<Rightarrow> nat" where
  "hmac_count t = length (filter is_hmac t)"

fun hmac_key :: "event \<Rightarrow> string" where
  "hmac_key (HmacSha1 k m) = k"
| "hmac_key _ = []"

text \<open>The tokens a keyed digest was computed with, in the order of the computations.\<close>

definition hashed_keys :: "event list \<Rightarrow> string list" where
  "hashed_keys t = map hmac_key (filter is_hmac t)"

text \<open>\<^verbatim>\<open>crypto.timingSafeEqual\<close> throws a RangeError on buffers of different lengths and
  otherwise compares every byte.\<close>

definition timingSafeEqual :: "byte list \<Rightarrow> byte list \<Rightarrow> js_error + bool" where
  "timingSafeEqual a b =
     (if length a \<noteq> length b
      then Inl (RangeError ''Input buffers must have the same byte length'')
      else Inr (a = b))"

subsection \<open>validateSignature\<close>

text \<open>
  The POST parameters are an object with string values: an association list with distinct
  keys, in the order \<^verbatim>\<open>Object.keys\<close> enumerates them. \<^verbatim>\<open>params[key]\<close> is the value
  stored under the key, \<^verbatim>\<open>undefined\<close> when there is none.
\<close>

type_synonym params = "(string \<times> string) list"

definition param_value :: "params \<Rightarrow> string \<Rightarrow> string" where
  "param_value ps key = (case map_of ps key of Some v \<Rightarrow> v | None \<Rightarrow> ''undefined'')"

text \<open>Lines 33 to 35: the URL followed by every key and its value, the keys sorted by
  \<^verbatim>\<open>sort()\<close>, which orders strings by their code units.\<close>

definition signatureString :: "string \<Rightarrow> params \<Rightarrow> string" where
  "signatureString url ps =
     url @ foldl (\<lambda>acc key. acc @ key @ param_value ps key) [] (sort (map fst ps))"

text \<open>Lines 38 to 41: the HMAC-SHA1 of the signature string under the token, in base64.\<close>

definition hmac_digest :: "string \<Rightarrow> string \<Rightarrow> byte list" where
  "hmac_digest authToken s = hmac_sha1 (utf8 authToken) (utf8 s)"

definition expectedSignature :: "string \<Rightarrow> string \<Rightarrow> string" where
  "expectedSignature authToken s = base64_encode (hmac_digest authToken s)"

text \<open>
  The body of the \<^verbatim>\<open>try\<close> block. \<^verbatim>\<open>params\<close> is \<open>None\<close> when \<^verbatim>\<open>req.body\<close> is undefined:
  \<^verbatim>\<open>Object.keys\<close> then throws before any digest is computed.
\<close>

definition validateSignature_try ::
    "string \<Rightarrow> string \<Rightarrow> params option \<Rightarrow> string \<Rightarrow> (js_error + bool) \<times> event list" where
  "validateSignature_try signature url params authToken =
     (case params of
        None \<Rightarrow> (Inl (TypeError ''Cannot convert undefined or null to object''), [])
      | Some ps \<Rightarrow>
          (timingSafeEqual
             (Buffer_from_base64 signature)
             (Buffer_from_base64 (expectedSignature authToken (signatureString url ps))),
           [HmacSha1 authToken (signatureString url ps)]))"

text \<open>The \<^verbatim>\<open>catch\<close> clause logs the error and returns false.\<close>

definition validateSignature ::
    "string \<Rightarrow> string \<Rightarrow> params option \<Rightarrow> string \<Rightarrow> (js_error + bool) \<times> event list" where
  "validateSignature signature url params authToken =
     (case validateSignature_try signature url params authToken of
        (Inl e, t) \<Rightarrow> (Inr False, t @ [ConsoleError ''Error validating Twilio signature:'' (message e)])
      | (Inr b, t) \<Rightarrow> (Inr b, t))"

subsection \<open>The validator and its middleware\<close>

record validator =
  authTokens :: "string list"
  accountSid :: string

datatype tokens_arg = Single string | Many "string list"

definition new_validator :: "tokens_arg \<Rightarrow> string \<Rightarrow> js_error + validator" where
  "new_validator arg sid =
     (let toks = (case arg of Many ts \<Rightarrow> ts | Single t \<Rightarrow> [t]) in
      if toks = [] \<or> [] \<in> set toks
      then Inl (Error ''TWILIO_AUTH_TOKEN must be provided and non-empty'')
      else if sid = [] then Inl (Error ''TWILIO_ACCOUNT_SID must be provided'')
      else Inr \<lparr>authTokens = toks, accountSid = sid\<rparr>)"

text \<open>\<^verbatim>\<open>Array.prototype.some\<close>: calls the predicate on the elements in order, stops at the
  first true result, and lets an exception of the predicate escape.\<close>

fun array_some ::
    "('a \<Rightarrow> (js_error + bool) \<times> event list) \<Rightarrow> 'a list \<Rightarrow> (js_error + bool) \<times> event list" where
  "array_some f [] = (Inr False, [])"
| "array_some f (x # xs) =
     (case f x of
        (Inl e, t) \<Rightarrow> (Inl e, t)
      | (Inr b, t) \<Rightarrow>
          if b then (Inr True, t)
          else (case array_some f xs of (r, t') \<Rightarrow> (r, t @ t')))"

text \<open>The part of an Express request the handler reads. Header names are stored in lower
  case and \<^verbatim>\<open>req.get\<close> lowers the name it is asked for.\<close>

record request =
  headers :: "string \<Rightarrow> string option"
  protocol :: string
  originalUrl :: string
  body :: "params option"

definition toLowerCase :: "string \<Rightarrow> string" where
  "toLowerCase s =
     map (\<lambda>c. let n = of_char c :: nat in if 65 \<le> n \<and> n \<le> 90 then char_of (n + 32) else c) s"

definition req_get :: "request \<Rightarrow> string \<Rightarrow> string option" where
  "req_get req name = headers req (toLowerCase name)"

text \<open>\<^verbatim>\<open>a || b\<close> on values that are a string or undefined: the empty string is falsy.\<close>

definition js_or :: "string option \<Rightarrow> string option \<Rightarrow> string option" where
  "js_or a b = (case a of None \<Rightarrow> b | Some s \<Rightarrow> if s = [] then b else Some s)"

text \<open>A value inside a template literal.\<close>

definition js_string :: "string option \<Rightarrow> string" where
  "js_string a = (case a of None \<Rightarrow> ''undefined'' | Some s \<Rightarrow> s)"

text \<open>Lines 71 to 73.\<close>

definition request_url :: "request \<Rightarrow> string" where
  "request_url req =
     (let protocol = js_or (req_get req ''X-Forwarded-Proto'') (Some (protocol req));
          host = js_or (req_get req ''X-Forwarded-Host'') (req_get req ''Host'')
      in js_string protocol @ ''://'' @ js_string host @ originalUrl req)"

text \<open>What the handler does with the request: it answers through \<^verbatim>\<open>res\<close> with a status and
  a JSON body, or it calls \<^verbatim>\<open>next()\<close>.\<close>

datatype outcome = Responded nat string string | NextCalled

definition missing_signature :: "(js_error + outcome) \<times> event list" where
  "missing_signature =
     (Inr (Responded 403 ''Forbidden'' ''Missing Twilio signature header''),
      [ConsoleWarn ''Webhook validation failed: Missing X-Twilio-Signature header'' []])"

definition invalid_signature :: outcome where
  "invalid_signature = Responded 403 ''Forbidden'' ''Invalid Twilio signature''"

definition middleware :: "validator \<Rightarrow> request \<Rightarrow> (js_error + outcome) \<times> event list" where
  "middleware this req =
     (case req_get req ''X-Twilio-Signature'' of
        None \<Rightarrow> missing_signature
      | Some signature \<Rightarrow>
          if signature = [] then missing_signature
          else
            (let url = request_url req in
             case array_some (\<lambda>token. validateSignature signature url (body req) token)
                    (authTokens this)
             of
               (Inl e, t) \<Rightarrow> (Inl e, t)
             | (Inr isValid, t) \<Rightarrow>
                 if \<not> isValid
                 then (Inr invalid_signature,
                       t @ [ConsoleWarn ''Webhook validation failed: Invalid signature''
                              [(''url'', url), (''signature'', take 10 signature @ ''...'')]])
                 else (Inr NextCalled,
                       t @ [ConsoleLog ''Webhook validation successful''
                              [(''url'', url), (''accountSid'', accountSid this)]])))"

subsection \<open>What one call of the handler does with the tokens\<close>

text \<open>The events of one call of \<^verbatim>\<open>validateSignature\<close> on defined parameters: the digest, and
  the error logged when the decoded signature has not the length of a digest.\<close>

definition attempt_events :: "string \<Rightarrow> string \<Rightarrow> string \<Rightarrow> event list" where
  "attempt_events sig m k =
     (if length (Buffer_from_base64 sig) = 20 then [HmacSha1 k m]
      else [HmacSha1 k m,
            ConsoleError ''Error validating Twilio signature:''
              ''Input buffers must have the same byte length''])"

text \<open>The tokens up to and including the first whose digest over \<open>m\<close> equals the decoded
  signature; all tokens when there is none.\<close>

definition tried :: "string \<Rightarrow> string \<Rightarrow> string list \<Rightarrow> string list" where
  "tried sig m ks =
     take (Suc (length (takeWhile (\<lambda>k. Buffer_from_base64 sig \<noteq> hmac_digest k m) ks))) ks"

subsection \<open>Requests used in the statements\<close>

text \<open>The request with its signature header replaced.\<close>

definition with_signature :: "request \<Rightarrow> string option \<Rightarrow> request" where
  "with_signature req sig = req\<lparr>headers := (headers req)(''x-twilio-signature'' := sig)\<rparr>"


text \<open>A POST to \<^verbatim>\<open>https://a.test/sms\<close> with the parameters \<^verbatim>\<open>From=+1\<close> and \<^verbatim>\<open>Body=hi\<close>.\<close>

definition sms_params :: params where
  "sms_params = [(''From'', ''+1''), (''Body'', ''hi'')]"

definition sms_request :: "string option \<Rightarrow> request" where
  "sms_request sig =
     \<lparr>headers = (\<lambda>name. if name = ''x-twilio-signature'' then sig
                       else if name = ''host'' then Some ''a.test'' else None),
      protocol = ''https'', originalUrl = ''/sms'', body = Some sms_params\<rparr>"

definition sms_signature :: "string \<Rightarrow> string" where
  "sms_signature token =
     expectedSignature token (signatureString ''https://a.test/sms'' sms_params)"

definition keyring :: "string list \<Rightarrow> validator" where
  "keyring tokens = \<lparr>authTokens = tokens, accountSid = ''AC00000000000000000000000000000000''\<rparr>"

section \<open>Properties of the platform functions\<close>

subsection \<open>Base64: decoding an encoded buffer gives the buffer back\<close>

lemma unbase64_b64_char: "n < 64 \<Longrightarrow> unbase64 (b64_char n) = Some n"
  by (auto simp: unbase64_def b64_char_def Let_def)

lemma b64_char_not_pad: "n < 64 \<Longrightarrow> b64_char n \<noteq> CHR ''=''"
proof
  assume n: "n < 64" and "b64_char n = CHR ''=''"
  then have "of_char (b64_char n) = (61 :: nat)" by simp
  then show False using n by (auto simp: b64_char_def split: if_splits)
qed

lemma unat_byte_lt: "unat (a :: byte) < 256"
  using unsigned_less [of a, where ?'a = nat] by simp

lemma sextets_lt: "n \<in> set (sextets bs) \<Longrightarrow> n < 64"
proof (induction bs arbitrary: n rule: sextets.induct)
  case 1
  then show ?case by simp
next
  case (2 a)
  then show ?case using unat_byte_lt [of a] by auto
next
  case (3 a b)
  then show ?case using unat_byte_lt [of a] unat_byte_lt [of b] by auto
next
  case (4 a b c rest)
  then show ?case using unat_byte_lt [of a] unat_byte_lt [of b] unat_byte_lt [of c] by auto
qed

lemma base64_encode_sextets:
  "base64_encode bs =
     map b64_char (sextets bs) @ replicate ((3 - length bs mod 3) mod 3) (CHR ''='')"
proof (induction bs rule: sextets.induct)
  case 1
  show ?case by simp
next
  case (2 a)
  show ?case by (simp add: numeral_2_eq_2)
next
  case (3 a b)
  show ?case by simp
next
  case (4 a b c rest)
  have "length (a # b # c # rest) = length rest + 3"
    by simp
  then have "length (a # b # c # rest) mod 3 = length rest mod 3"
    by (simp only: mod_add_self2)
  then have pad: "(3 - length (a # b # c # rest) mod 3) mod 3 = (3 - length rest mod 3) mod 3"
    by (simp only:)
  show ?case unfolding pad using 4 by simp
qed

lemma byte1: "(of_nat (unat a div 4 * 4 + (unat a mod 4 * 16 + unat (b :: byte) div 16) div 16) :: byte) = a"
proof -
  have "unat b div 16 < 16" using unat_byte_lt [of b] by simp
  then have "(unat a mod 4 * 16 + unat b div 16) div 16 = unat a mod 4" by simp
  then show ?thesis by simp
qed

lemma byte2:
  "(of_nat ((unat a mod 4 * 16 + unat b div 16) mod 16 * 16 + (unat b mod 16 * 4 + unat (c :: byte) div 64) div 4) :: byte) = b"
proof -
  have c: "unat c div 64 < 4" using unat_byte_lt [of c] by simp
  have b: "unat b div 16 < 16" using unat_byte_lt [of b] by simp
  have "(unat a mod 4 * 16 + unat b div 16) mod 16 = unat b div 16" using b by simp
  moreover have "(unat b mod 16 * 4 + unat c div 64) div 4 = unat b mod 16" using c by simp
  ultimately show ?thesis by simp
qed

lemma byte3: "(of_nat ((unat (b :: byte) mod 16 * 4 + unat c div 64) mod 4 * 64 + unat c mod 64) :: byte) = c"
proof -
  have c: "unat c div 64 < 4" using unat_byte_lt [of c] by simp
  have "(unat b mod 16 * 4 + unat c div 64) mod 4 = unat c div 64" using c by simp
  then show ?thesis by simp
qed

lemma byte2': "(of_nat ((unat (a :: byte) mod 4 * 16 + unat b div 16) mod 16 * 16 + (unat b mod 16 * 4) div 4) :: byte) = b"
proof -
  have b: "unat b div 16 < 16" using unat_byte_lt [of b] by simp
  have "(unat a mod 4 * 16 + unat b div 16) mod 16 = unat b div 16" using b by simp
  then show ?thesis by simp
qed

lemma byte1': "(of_nat (unat a div 4 * 4 + (unat a mod 4 * 16) div 16) :: byte) = a"
  by simp

lemma decode_sextets_sextets: "decode_sextets (sextets bs) = bs"
proof (induction bs rule: sextets.induct)
  case 1
  show ?case by simp
next
  case (2 a)
  show ?case using byte1' [of a] by simp
next
  case (3 a b)
  show ?case using byte1 [of a b] byte2' [of a b] by simp
next
  case (4 a b c rest)
  show ?case using 4 byte1 [of a b] byte2 [of a b c] byte3 [of b c] by simp
qed


lemma map_filter_b64: "\<forall>n\<in>set ns. n < 64 \<Longrightarrow> List.map_filter unbase64 (map b64_char ns) = ns"
  by (induction ns) (simp_all add: unbase64_b64_char)

lemma takeWhile_b64:
  "\<forall>n\<in>set ns. n < 64 \<Longrightarrow>
     takeWhile (\<lambda>c. c \<noteq> CHR ''='') (map b64_char ns @ replicate k (CHR ''='')) = map b64_char ns"
  by (induction ns) (simp_all add: b64_char_not_pad takeWhile_replicate)

lemma Buffer_from_base64_encode: "Buffer_from_base64 (base64_encode bs) = bs"
  using sextets_lt [of _ bs]
  by (simp add: Buffer_from_base64_def base64_encode_sextets takeWhile_b64 map_filter_b64
        decode_sextets_sextets)

subsection \<open>The digest has 20 bytes\<close>

lemma length_sha1: "length (sha1 m) = 20"
  by (simp add: sha1_def word_bytes_def Let_def split: prod.splits)

lemma length_hmac_digest: "length (hmac_digest k s) = 20"
  by (simp add: hmac_digest_def hmac_sha1_def Let_def length_sha1)

lemma decode_expected:
  "Buffer_from_base64 (expectedSignature k s) = hmac_digest k s"
  by (simp add: expectedSignature_def Buffer_from_base64_encode)

subsection \<open>validateSignature, \<^verbatim>\<open>some\<close> and header lookup\<close>

lemma validateSignature_Some:
  "validateSignature sig url (Some ps) tok =
     (if length (Buffer_from_base64 sig) = 20
      then (Inr (Buffer_from_base64 sig = hmac_digest tok (signatureString url ps)),
            [HmacSha1 tok (signatureString url ps)])
      else (Inr False,
            [HmacSha1 tok (signatureString url ps),
             ConsoleError ''Error validating Twilio signature:''
               ''Input buffers must have the same byte length'']))"
  by (simp add: validateSignature_def validateSignature_try_def timingSafeEqual_def
        decode_expected length_hmac_digest)

lemma validateSignature_None:
  "validateSignature sig url None tok =
     (Inr False,
      [ConsoleError ''Error validating Twilio signature:''
         ''Cannot convert undefined or null to object''])"
  by (simp add: validateSignature_def validateSignature_try_def)

text \<open>The \<^verbatim>\<open>try\<close> block does raise: on undefined parameters, and whenever the decoded
  signature has not the length of a digest.\<close>

lemma validateSignature_try_raises:
  "fst (validateSignature_try sig url None tok)
     = Inl (TypeError ''Cannot convert undefined or null to object'')"
  "length (Buffer_from_base64 sig) \<noteq> 20 \<Longrightarrow>
     fst (validateSignature_try sig url (Some ps) tok)
       = Inl (RangeError ''Input buffers must have the same byte length'')"
  by (simp_all add: validateSignature_try_def timingSafeEqual_def decode_expected
        length_hmac_digest)

lemma validateSignature_returns: "\<exists>b. fst (validateSignature sig url params tok) = Inr b"
  by (cases params) (auto simp: validateSignature_Some validateSignature_None)

lemma array_some_returns:
  "(\<And>x. \<exists>b. fst (f x) = Inr b) \<Longrightarrow> \<exists>b. fst (array_some f xs) = Inr b"
proof (induction xs)
  case Nil
  show ?case by auto
next
  case (Cons x xs)
  obtain b where b: "fst (f x) = Inr b" using Cons.prems by blast
  obtain c where c: "fst (array_some f xs) = Inr c" using Cons by blast
  show ?case using b c by (cases "f x"; cases "array_some f xs") auto
qed

text \<open>The constructor accepts exactly the non-empty lists of non-empty tokens, with a
  non-empty account SID.\<close>

lemma new_validator_Inr:
  "new_validator arg sid = Inr this \<Longrightarrow>
     authTokens this \<noteq> [] \<and> [] \<notin> set (authTokens this) \<and> accountSid this \<noteq> []"
  by (auto simp: new_validator_def Let_def split: if_splits)


lemma lower_case_letters:
  "char_of (120 :: nat) = CHR ''x''" "char_of (116 :: nat) = CHR ''t''"
  "char_of (115 :: nat) = CHR ''s''" "char_of (102 :: nat) = CHR ''f''"
  "char_of (112 :: nat) = CHR ''p''" "char_of (104 :: nat) = CHR ''h''"
  by (simp_all add: char_of_eq_iff)

lemma req_get_signature: "req_get req ''X-Twilio-Signature'' = headers req ''x-twilio-signature''"
  by (simp add: req_get_def toLowerCase_def lower_case_letters)

lemma req_get_proto: "req_get req ''X-Forwarded-Proto'' = headers req ''x-forwarded-proto''"
  by (simp add: req_get_def toLowerCase_def lower_case_letters)

lemma req_get_fhost: "req_get req ''X-Forwarded-Host'' = headers req ''x-forwarded-host''"
  by (simp add: req_get_def toLowerCase_def lower_case_letters)

lemma req_get_host: "req_get req ''Host'' = headers req ''host''"
  by (simp add: req_get_def toLowerCase_def lower_case_letters)

lemma expectedSignature_nonempty: "expectedSignature k s \<noteq> []"
proof
  assume "expectedSignature k s = []"
  then have "hmac_digest k s = Buffer_from_base64 []"
    using decode_expected [of k s] by simp
  then have "hmac_digest k s = []" by (simp add: Buffer_from_base64_def)
  then show False using length_hmac_digest [of k s] by simp
qed

subsection \<open>The handler on a present and on an absent signature header\<close>

lemma array_some_fst:
  "(\<And>x. fst (f x) = Inr (P x)) \<Longrightarrow> fst (array_some f xs) = Inr (\<exists>x\<in>set xs. P x)"
proof (induction xs)
  case Nil
  show ?case by simp
next
  case (Cons x xs)
  have "fst (f x) = Inr (P x)" using Cons.prems by blast
  moreover have "fst (array_some f xs) = Inr (\<exists>x\<in>set xs. P x)" using Cons by blast
  ultimately show ?case by (cases "f x"; cases "array_some f xs") auto
qed

lemma array_some_snd:
  "(\<And>x. f x = (Inr (P x), g x)) \<Longrightarrow>
     snd (array_some f xs) =
       concat (map g (take (Suc (length (takeWhile (\<lambda>x. \<not> P x) xs))) xs))"
proof (induction xs)
  case Nil
  show ?case by simp
next
  case (Cons x xs)
  have fx: "f x = (Inr (P x), g x)" using Cons.prems by blast
  have ih: "snd (array_some f xs) =
       concat (map g (take (Suc (length (takeWhile (\<lambda>x. \<not> P x) xs))) xs))"
    using Cons by blast
  show ?case using fx ih by (cases "array_some f xs") auto
qed

lemma validateSignature_attempt:
  "validateSignature sig url (Some ps) k =
     (Inr (Buffer_from_base64 sig = hmac_digest k (signatureString url ps)),
      attempt_events sig (signatureString url ps) k)"
  using length_hmac_digest [of k "signatureString url ps"]
  by (auto simp: validateSignature_Some attempt_events_def)

lemma hashed_keys_attempts: "hashed_keys (concat (map (attempt_events sig m) ks)) = ks"
  by (induction ks) (simp_all add: hashed_keys_def attempt_events_def)

lemma hashed_keys_append_console [simp]:
  "hashed_keys (t @ [ConsoleWarn a b]) = hashed_keys t"
  "hashed_keys (t @ [ConsoleLog a b]) = hashed_keys t"
  by (simp_all add: hashed_keys_def)

lemma middleware_present:
  assumes "req_get req ''X-Twilio-Signature'' = Some sig" and "sig \<noteq> []"
    and "body req = Some ps"
  shows "fst (middleware this req) =
           (if \<exists>k\<in>set (authTokens this).
                 Buffer_from_base64 sig = hmac_digest k (signatureString (request_url req) ps)
            then Inr NextCalled else Inr invalid_signature)"
    and "hashed_keys (snd (middleware this req)) =
           tried sig (signatureString (request_url req) ps) (authTokens this)"
proof -
  let ?m = "signatureString (request_url req) ps"
  let ?f = "\<lambda>token. validateSignature sig (request_url req) (body req) token"
  let ?P = "\<lambda>k. Buffer_from_base64 sig = hmac_digest k ?m"
  have f: "?f k = (Inr (?P k), attempt_events sig ?m k)" for k
    using assms(3) by (simp add: validateSignature_attempt)
  have 1: "fst (array_some ?f (authTokens this)) = Inr (\<exists>k\<in>set (authTokens this). ?P k)"
    by (rule array_some_fst) (simp add: f)
  have 2: "snd (array_some ?f (authTokens this)) =
      concat (map (attempt_events sig ?m) (tried sig ?m (authTokens this)))"
    unfolding tried_def by (rule array_some_snd) (simp add: f)
  show "fst (middleware this req) =
           (if \<exists>k\<in>set (authTokens this). ?P k then Inr NextCalled else Inr invalid_signature)"
    using assms(1,2) 1 by (cases "array_some ?f (authTokens this)") (auto simp: middleware_def Let_def)
  show "hashed_keys (snd (middleware this req)) = tried sig ?m (authTokens this)"
    using assms(1,2) 1 2
    by (cases "array_some ?f (authTokens this)")
       (auto simp: middleware_def Let_def hashed_keys_attempts)
qed

lemma middleware_absent:
  "req_get req ''X-Twilio-Signature'' = None \<or> req_get req ''X-Twilio-Signature'' = Some [] \<Longrightarrow>
     middleware this req = missing_signature"
  by (auto simp: middleware_def)


lemma req_get_with_signature: "req_get (with_signature req sig) ''X-Twilio-Signature'' = sig"
  by (simp add: with_signature_def req_get_signature)


lemma sms_request_simps:
  "request_url (sms_request sig) = ''https://a.test/sms''"
  "req_get (sms_request sig) ''X-Twilio-Signature'' = sig"
  "body (sms_request sig) = Some sms_params"
  by (simp_all add: request_url_def sms_request_def req_get_proto req_get_fhost req_get_host
        req_get_signature js_or_def js_string_def)

subsection \<open>Signatures that differ in the padding, and keys that differ in trailing zero bytes\<close>














lemma tried_no_match:
  assumes "\<forall>k\<in>set ks. Buffer_from_base64 sig \<noteq> hmac_digest k m"
  shows "tried sig m ks = ks"
proof -
  have tw: "takeWhile (\<lambda>k. Buffer_from_base64 sig \<noteq> hmac_digest k m) ks = ks"
    using assms by simp
  show ?thesis unfolding tried_def tw by simp
qed

section \<open>The claims\<close>

text \<open>
  The handler has three outcomes, which the statements below read as the results of the
  specification: \<^term>\<open>NextCalled\<close> is success; the response
  \<^term>\<open>Responded 403 ''Forbidden'' ''Missing Twilio signature header''\<close>, the first component
  of \<^term>\<open>missing_signature\<close>, is the failure for a missing signature; and
  \<^term>\<open>invalid_signature\<close> is the failure when no key matched. The handler has no separate
  outcome for a malformed signature. A result \<open>Inl e\<close> would be an exception escaping the
  handler.
\<close>

subsection \<open>The example request, signed\<close>


subsection \<open>C1: a signed request verifies\<close>

text \<open>
  Claim C1. For every keyring and every token \<open>k\<close> in it: a request whose signature
  header is the signature the code computes for its URL and parameters under \<open>k\<close> (the
  HMAC-SHA1 of the signature string, in padded base64) passes the handler, which calls
  \<^verbatim>\<open>next()\<close>.
\<close>

theorem sign_then_verify:
  assumes "k \<in> set (authTokens this)"
    and "body req = Some ps"
    and "req_get req ''X-Twilio-Signature'' =
           Some (expectedSignature k (signatureString (request_url req) ps))"
  shows "fst (middleware this req) = Inr NextCalled"
  using middleware_present(1) [OF assms(3) expectedSignature_nonempty assms(2), of this] assms(1)
  by (auto simp: decode_expected)


theorem sign_then_verify_witness:
  "''new_token'' \<in> set (authTokens (keyring [''old_token'', ''new_token'']))
   \<and> fst (middleware (keyring [''old_token'', ''new_token''])
            (sms_request (Some (sms_signature ''new_token'')))) = Inr NextCalled"
  using sign_then_verify [of "''new_token''" "keyring [''old_token'', ''new_token'']"
      "sms_request (Some (sms_signature ''new_token''))" sms_params]
  by (simp add: sms_request_simps sms_signature_def keyring_def)

subsection \<open>C2: a signature that is not base64\<close>

text \<open>
  Claim C2 as stated fails. The header \<^verbatim>\<open>!!!!\<close> holds no base64 character. The
  handler answers with the response it gives when no key matched, after computing the
  digest for the token and catching the RangeError of the comparison.
\<close>

theorem malformed_signature_counterexample:
  "middleware (keyring [''secret'']) (sms_request (Some ''!!!!'')) =
     (Inr invalid_signature,
      [HmacSha1 ''secret'' ''https://a.test/smsBodyhiFrom+1'',
       ConsoleError ''Error validating Twilio signature:''
         ''Input buffers must have the same byte length'',
       ConsoleWarn ''Webhook validation failed: Invalid signature''
         [(''url'', ''https://a.test/sms''), (''signature'', ''!!!!...'')]])"
  by (simp add: middleware_def sms_request_simps keyring_def validateSignature_Some
        Buffer_from_base64_def unbase64_def signatureString_def sms_params_def param_value_def)

text \<open>
  Claim C2, as the code has it. For every request whose signature header is present and
  not empty, whose parameters are defined, and whose header does not decode to the 20 bytes
  of a digest: the handler answers with the invalid-signature response, and it has computed
  one keyed digest for every token of the keyring, in order.
\<close>

theorem undecodable_signature_rejected:
  assumes "req_get req ''X-Twilio-Signature'' = Some sig" and "sig \<noteq> []"
    and "body req = Some ps"
    and "length (Buffer_from_base64 sig) \<noteq> 20"
  shows "fst (middleware this req) = Inr invalid_signature
         \<and> hashed_keys (snd (middleware this req)) = authTokens this"
proof -
  have no: "\<forall>k\<in>set (authTokens this).
      Buffer_from_base64 sig \<noteq> hmac_digest k (signatureString (request_url req) ps)"
    using assms(4) length_hmac_digest by metis
  show ?thesis
    using middleware_present [OF assms(1,2,3), of this] no tried_no_match [OF no] by simp
qed


theorem undecodable_signature_rejected_witness:
  "length (Buffer_from_base64 ''invalid-signature'') \<noteq> 20
   \<and> fst (middleware (keyring [''old_token'', ''new_token''])
            (sms_request (Some ''invalid-signature''))) = Inr invalid_signature
   \<and> hashed_keys (snd (middleware (keyring [''old_token'', ''new_token''])
                         (sms_request (Some ''invalid-signature''))))
       = [''old_token'', ''new_token'']"
proof -
  have len: "length (Buffer_from_base64 ''invalid-signature'') \<noteq> 20"
    by (simp add: Buffer_from_base64_def unbase64_def)
  show ?thesis
    using len undecodable_signature_rejected [of "sms_request (Some ''invalid-signature'')"
        "''invalid-signature''" sms_params "keyring [''old_token'', ''new_token'']"]
    by (simp add: sms_request_simps keyring_def)
qed

subsection \<open>C3: a missing signature header\<close>

text \<open>
  Claim C3. For every request without a signature header and every validator: the handler
  answers with the missing-signature response, which does not depend on the tokens, and
  computes no keyed digest.
\<close>

theorem missing_signature_rejected:
  assumes "req_get req ''X-Twilio-Signature'' = None"
  shows "middleware this req = missing_signature
         \<and> hmac_count (snd (middleware this req)) = 0"
  using assms by (simp add: middleware_absent missing_signature_def hmac_count_def)


theorem missing_signature_rejected_witness:
  "middleware (keyring [''old_token'', ''new_token'']) (sms_request None) = missing_signature
   \<and> hmac_count (snd (middleware (keyring [''old_token'', ''new_token'']) (sms_request None))) = 0"
proof -
  have absent: "req_get (sms_request None) ''X-Twilio-Signature'' = None"
    by (simp add: sms_request_simps)
  show ?thesis by (rule missing_signature_rejected [OF absent])
qed

subsection \<open>C4: the signature string does not depend on the order of the parameters\<close>

text \<open>
  Claim C4. For every URL and every two parameter objects with the same key/value pairs
  (keys unique, as in an object) enumerated in different orders, the signature string is the
  same.
\<close>

theorem canonical_order_invariant:
  assumes "distinct (map fst ps)" and "mset qs = mset ps"
  shows "signatureString url qs = signatureString url ps"
proof -
  have keys: "mset (map fst qs) = mset (map fst ps)"
    using assms(2) by (metis mset_map)
  have "sort (map fst qs) = sort (map fst ps)"
    by (rule properties_for_sort) (simp_all add: assms(2))
  moreover have "param_value qs = param_value ps"
  proof -
    have "distinct (map fst qs)"
      using keys assms(1) by (metis mset_eq_imp_distinct_iff)
    moreover have "set qs = set ps"
      using assms(2) by (rule mset_eq_setD)
    ultimately have "map_of qs = map_of ps"
      using assms(1) by (simp only: map_of_inject_set)
    then show ?thesis
      by (simp add: param_value_def fun_eq_iff)
  qed
  ultimately show ?thesis by (simp add: signatureString_def)
qed


theorem canonical_order_invariant_witness:
  "signatureString ''https://a.test/sms'' [(''Body'', ''hi''), (''From'', ''+1'')]
     = signatureString ''https://a.test/sms'' [(''From'', ''+1''), (''Body'', ''hi'')]"
proof -
  have keys: "distinct (map fst [(''From'', ''+1''), (''Body'', ''hi'')])"
    by simp
  have same: "mset [(''Body'', ''hi''), (''From'', ''+1'')]
      = mset [(''From'', ''+1''), (''Body'', ''hi'')]"
    by (simp only: mset.simps add_mset_commute)
  show ?thesis by (rule canonical_order_invariant [OF keys same])
qed

subsection \<open>C5: one flipped bit in a valid signature\<close>





subsection \<open>C6: key rotation\<close>





subsection \<open>C7: the handler never raises\<close>

text \<open>
  Claim C7. For every signature, URL, parameters (defined or not) and token,
  \<^verbatim>\<open>validateSignature\<close> returns a boolean; for every validator and request the handler
  returns one of its three outcomes. No exception escapes.
\<close>

theorem never_raises:
  "(\<exists>b. fst (validateSignature signature url params token) = Inr b)
   \<and> (fst (middleware this req) = Inr (Responded 403 ''Forbidden'' ''Missing Twilio signature header'')
      \<or> fst (middleware this req) = Inr invalid_signature
      \<or> fst (middleware this req) = Inr NextCalled)"
proof
  show "\<exists>b. fst (validateSignature signature url params token) = Inr b"
    by (rule validateSignature_returns)
next
  show "fst (middleware this req) = Inr (Responded 403 ''Forbidden'' ''Missing Twilio signature header'')
      \<or> fst (middleware this req) = Inr invalid_signature
      \<or> fst (middleware this req) = Inr NextCalled"
  proof (cases "req_get req ''X-Twilio-Signature''")
    case None
    then show ?thesis by (simp add: middleware_def missing_signature_def)
  next
    case (Some sig)
    let ?f = "\<lambda>token. validateSignature sig (request_url req) (body req) token"
    obtain b where "fst (array_some ?f (authTokens this)) = Inr b"
      using array_some_returns [of ?f "authTokens this"] validateSignature_returns by blast
    then show ?thesis using Some
      by (cases "array_some ?f (authTokens this)")
         (auto simp: middleware_def Let_def missing_signature_def)
  qed
qed


subsection \<open>C8: the signature string of the example\<close>

text \<open>
  Claim C8. For the URL \<^verbatim>\<open>https://a.test/sms\<close> and the parameters \<^verbatim>\<open>From=+1\<close>,
  \<^verbatim>\<open>Body=hi\<close> the signature string is \<^verbatim>\<open>https://a.test/smsBodyhiFrom+1\<close>.
\<close>

theorem canonical_example:
  "signatureString ''https://a.test/sms'' [(''From'', ''+1''), (''Body'', ''hi'')]
     = ''https://a.test/smsBodyhiFrom+1''"
  by (simp add: signatureString_def param_value_def)


subsection \<open>C9: no parameters\<close>

text \<open>
  Claim C9. For every URL, the signature string of the URL with an empty parameter object
  is the URL.
\<close>

theorem canonical_empty: "signatureString url [] = url"
  by (simp add: signatureString_def)


subsection \<open>C10: an empty signature header\<close>

text \<open>
  Claim C10. For every request whose signature header is present and empty, the handler
  answers with the missing-signature response, as it does for the same request without the
  header.
\<close>

theorem empty_signature_is_missing:
  assumes "req_get req ''X-Twilio-Signature'' = Some []"
  shows "middleware this req = missing_signature
         \<and> middleware this req = middleware this (with_signature req None)"
  using assms by (simp add: middleware_absent req_get_with_signature)


theorem empty_signature_is_missing_witness:
  "middleware (keyring [''secret'']) (sms_request (Some [])) = missing_signature
   \<and> middleware (keyring [''secret'']) (sms_request (Some []))
       = middleware (keyring [''secret'']) (with_signature (sms_request (Some [])) None)"
proof -
  have empty: "req_get (sms_request (Some [])) ''X-Twilio-Signature'' = Some []"
    by (simp add: sms_request_simps)
  show ?thesis by (rule empty_signature_is_missing [OF empty])
qed

end
